theory Spec2Isabelle
  imports Complex_Main "HOL-Library.Log_Nat"
begin

section \<open>Machine integers\<close>

text \<open>
  Go's \<^verbatim>\<open>int64\<close> (and \<^verbatim>\<open>int\<close>, taken as 64 bits wide, and \<^verbatim>\<open>time.Duration\<close>, which is an
  \<^verbatim>\<open>int64\<close>) are modelled as \<open>int\<close> with the wrap-around written out.
  \<open>wrap64\<close> is the two's-complement reduction that every \<^verbatim>\<open>int64\<close> operation applies to
  its mathematical result, \<open>sat64\<close> the saturation that \<^verbatim>\<open>time.Time.Sub\<close> applies, and
  \<open>tdiv\<close> Go's integer quotient, which truncates toward zero.
\<close>

definition wrap64 :: "int \<Rightarrow> int" where
  "wrap64 x = (x + 9223372036854775808) mod 18446744073709551616 - 9223372036854775808"

definition sat64 :: "int \<Rightarrow> int" where
  "sat64 x = max (- 9223372036854775808) (min 9223372036854775807 x)"

definition tdiv :: "int \<Rightarrow> int \<Rightarrow> int" where
  "tdiv a b = wrap64 (sgn a * sgn b * (\<bar>a\<bar> div \<bar>b\<bar>))"

section \<open>float64\<close>

text \<open>
  A \<^verbatim>\<open>float64\<close> is NaN, an infinity or a finite number, kept as the rational it denotes.
  The arithmetic operations are those of IEEE 754 binary64: the exact result, rounded to
  the nearest representable number, ties to even (\<open>rnd\<close>). Negative zero is identified
  with zero in \<open>val\<close>; where a \<^verbatim>\<open>float64\<close> is printed, the sign of a zero is kept by the type
  \<open>float64\<close> of the section on the verb %g.
\<close>

datatype val = NaN | PInf | NInf | Fin rat

text \<open>The floor of the binary logarithm of a positive rational.\<close>

definition flog2 :: "rat \<Rightarrow> int" where
  "flog2 x = (if 1 \<le> x then bitlen \<lfloor>x\<rfloor> - 1 else - bitlen (\<lceil>1 / x\<rceil> - 1))"

definition pow2 :: "int \<Rightarrow> rat" where
  "pow2 e = (if 0 \<le> e then 2 ^ nat e else 1 / 2 ^ nat (- e))"

text \<open>Rounding a rational to the nearest integer, ties to even.\<close>

definition rne :: "rat \<Rightarrow> int" where
  "rne q = (let f = \<lfloor>q\<rfloor>; r = q - of_int f in
     if r < 1 / 2 then f else if 1 / 2 < r then f + 1 else if even f then f else f + 1)"

text \<open>
  Rounding to binary64: 53 significant bits, the exponent of the last place no smaller
  than \<open>-1074\<close> (subnormal numbers), overflow to an infinity from \<open>2 ^ 1024\<close> on.
\<close>

definition rnd :: "rat \<Rightarrow> val" where
  "rnd x = (if x = 0 then Fin 0 else
     let e = max (flog2 \<bar>x\<bar>) (- 1022) - 52;
         y = of_int (rne (x / pow2 e)) * pow2 e
     in if y \<noteq> 0 \<and> 1024 \<le> flog2 \<bar>y\<bar> then (if 0 < x then PInf else NInf) else Fin y)"

definition isNaN :: "val \<Rightarrow> bool" where
  "isNaN v = (case v of NaN \<Rightarrow> True | _ \<Rightarrow> False)"

fun fneg :: "val \<Rightarrow> val" where
  "fneg NaN = NaN"
| "fneg PInf = NInf"
| "fneg NInf = PInf"
| "fneg (Fin a) = Fin (- a)"

fun fadd :: "val \<Rightarrow> val \<Rightarrow> val" where
  "fadd NaN _ = NaN"
| "fadd _ NaN = NaN"
| "fadd PInf NInf = NaN"
| "fadd NInf PInf = NaN"
| "fadd PInf _ = PInf"
| "fadd _ PInf = PInf"
| "fadd NInf _ = NInf"
| "fadd _ NInf = NInf"
| "fadd (Fin a) (Fin b) = rnd (a + b)"

definition fsub :: "val \<Rightarrow> val \<Rightarrow> val" where
  "fsub a b = fadd a (fneg b)"

fun fmul :: "val \<Rightarrow> val \<Rightarrow> val" where
  "fmul NaN _ = NaN"
| "fmul _ NaN = NaN"
| "fmul PInf PInf = PInf"
| "fmul PInf NInf = NInf"
| "fmul NInf PInf = NInf"
| "fmul NInf NInf = PInf"
| "fmul PInf (Fin b) = (if b = 0 then NaN else if 0 < b then PInf else NInf)"
| "fmul NInf (Fin b) = (if b = 0 then NaN else if 0 < b then NInf else PInf)"
| "fmul (Fin a) PInf = (if a = 0 then NaN else if 0 < a then PInf else NInf)"
| "fmul (Fin a) NInf = (if a = 0 then NaN else if 0 < a then NInf else PInf)"
| "fmul (Fin a) (Fin b) = rnd (a * b)"

fun fdiv :: "val \<Rightarrow> val \<Rightarrow> val" where
  "fdiv NaN _ = NaN"
| "fdiv _ NaN = NaN"
| "fdiv PInf PInf = NaN"
| "fdiv PInf NInf = NaN"
| "fdiv NInf PInf = NaN"
| "fdiv NInf NInf = NaN"
| "fdiv PInf (Fin b) = (if b < 0 then NInf else PInf)"
| "fdiv NInf (Fin b) = (if b < 0 then PInf else NInf)"
| "fdiv (Fin a) PInf = Fin 0"
| "fdiv (Fin a) NInf = Fin 0"
| "fdiv (Fin a) (Fin b) =
     (if b = 0 then (if a = 0 then NaN else if 0 < a then PInf else NInf) else rnd (a / b))"

text \<open>The comparisons \<^verbatim>\<open><\<close> and \<^verbatim>\<open>>\<close>: false as soon as one side is NaN.\<close>

fun flt :: "val \<Rightarrow> val \<Rightarrow> bool" where
  "flt NaN _ = False"
| "flt _ NaN = False"
| "flt PInf _ = False"
| "flt _ NInf = False"
| "flt NInf _ = True"
| "flt _ PInf = True"
| "flt (Fin a) (Fin b) = (a < b)"

definition fgt :: "val \<Rightarrow> val \<Rightarrow> bool" where
  "fgt a b = flt b a"

definition fle :: "val \<Rightarrow> val \<Rightarrow> bool" where
  "fle a b = (flt a b \<or> (a = b \<and> a \<noteq> NaN))"

definition fge :: "val \<Rightarrow> val \<Rightarrow> bool" where
  "fge a b = fle b a"

text \<open>The conversion \<^verbatim>\<open>float64(n)\<close> of an integer.\<close>

definition i2f :: "int \<Rightarrow> val" where
  "i2f n = rnd (of_int n)"

text \<open>
  The conversion \<^verbatim>\<open>int64(f)\<close> truncates toward zero. Where \<^verbatim>\<open>int64\<close> cannot represent
  the result (NaN, the infinities, a magnitude from \<open>2 ^ 63\<close> on), Go leaves the value to
  the implementation: it is the parameter \<open>cv\<close>. \<open>cvt_amd64\<close> is what x86-64 produces.
\<close>

definition f2i :: "(val \<Rightarrow> int) \<Rightarrow> val \<Rightarrow> int" where
  "f2i cv v = (case v of
      Fin x \<Rightarrow> (let t = (if 0 \<le> x then \<lfloor>x\<rfloor> else \<lceil>x\<rceil>) in
                 if - 9223372036854775808 \<le> t \<and> t \<le> 9223372036854775807 then t
                 else wrap64 (cv v))
    | _ \<Rightarrow> wrap64 (cv v))"

definition cvt_amd64 :: "val \<Rightarrow> int" where
  "cvt_amd64 v = - 9223372036854775808"

section \<open>time.Time\<close>

text \<open>
  An instant is the number of nanoseconds since the Unix epoch. \<^verbatim>\<open>Sub\<close> saturates at the
  bounds of \<^verbatim>\<open>Duration\<close>; \<^verbatim>\<open>UnixNano\<close> reduces to an \<^verbatim>\<open>int64\<close>.
\<close>

definition Before :: "int \<Rightarrow> int \<Rightarrow> bool" where
  "Before t u = (t < u)"

definition After :: "int \<Rightarrow> int \<Rightarrow> bool" where
  "After t u = (u < t)"

definition Sub :: "int \<Rightarrow> int \<Rightarrow> int" where
  "Sub t u = sat64 (t - u)"

definition Add :: "int \<Rightarrow> int \<Rightarrow> int" where
  "Add t d = t + d"

definition UnixNano :: "int \<Rightarrow> int" where
  "UnixNano t = wrap64 t"

section \<open>Plots and series (pkg/plot/plot.go)\<close>

record plot =
  Time :: int
  Value :: val

text \<open>The \<^verbatim>\<open>Summary\<close> map is \<open>None\<close> when it is the nil map.\<close>

record series =
  Name :: string
  Plots :: "plot list"
  Step :: int
  Summary :: "(string \<Rightarrow> val option) option"

datatype panic = IndexOutOfRange | MakesliceLenOutOfRange | NilMapAssignment

datatype failure = Error string | Panic panic

section \<open>Consolidation (pkg/plot/func.go)\<close>

abbreviation (input) ConsolidateAverage :: int where "ConsolidateAverage \<equiv> 1"
abbreviation (input) ConsolidateLast :: int where "ConsolidateLast \<equiv> 2"
abbreviation (input) ConsolidateMax :: int where "ConsolidateMax \<equiv> 3"
abbreviation (input) ConsolidateMin :: int where "ConsolidateMin \<equiv> 4"
abbreviation (input) ConsolidateSum :: int where "ConsolidateSum \<equiv> 5"

record plotBucket =
  startTime :: int
  plots :: "plot list"

text \<open>The loop of the average case: the running sum and the count of summed plots.\<close>

definition averageLoop :: "plot list \<Rightarrow> val \<times> int" where
  "averageLoop ps = foldl (\<lambda>(sum, sumCount) p. (fadd sum (Value p), sumCount + 1)) (Fin 0, 0) ps"

definition maxLoop :: "plot \<Rightarrow> plot list \<Rightarrow> plot" where
  "maxLoop c ps = foldl (\<lambda>consolidatedPlot p.
     if (\<not> isNaN (Value p) \<and> fgt (Value p) (Value consolidatedPlot)) \<or> isNaN (Value consolidatedPlot)
     then p else consolidatedPlot) c ps"

definition minLoop :: "plot \<Rightarrow> plot list \<Rightarrow> plot" where
  "minLoop c ps = foldl (\<lambda>consolidatedPlot p.
     if (\<not> isNaN (Value p) \<and> flt (Value p) (Value consolidatedPlot)) \<or> isNaN (Value consolidatedPlot)
     then p else consolidatedPlot) c ps"

definition Consolidate :: "plotBucket \<Rightarrow> int \<Rightarrow> plot" where
  "Consolidate bucket consolidationType =
    (let consolidatedPlot = \<lparr>Time = startTime bucket, Value = NaN\<rparr>;
         ps = plots bucket;
         bucketCount = length ps
     in if bucketCount = 0 then consolidatedPlot
        else if consolidationType = ConsolidateAverage then
          (let (sum, sumCount) = averageLoop ps in
           \<lparr>Time = (if bucketCount = 1 then Time (ps ! 0)
                    else Add (Time (ps ! 0)) (tdiv (Sub (Time (ps ! (bucketCount - 1))) (Time (ps ! 0))) 2)),
            Value = (if 0 < sumCount then fdiv sum (i2f sumCount) else NaN)\<rparr>)
        else if consolidationType = ConsolidateSum then
          \<lparr>Time = Time (ps ! (bucketCount - 1)),
           Value = foldl (\<lambda>sum p. fadd sum (Value p)) (Fin 0) ps\<rparr>
        else if consolidationType = ConsolidateLast then ps ! (bucketCount - 1)
        else if consolidationType = ConsolidateMax then maxLoop consolidatedPlot ps
        else if consolidationType = ConsolidateMin then minLoop consolidatedPlot ps
        else consolidatedPlot)"

text \<open>The bucket index of a plot inside the window, as line 150 computes it.\<close>

definition plotIndexOf :: "(val \<Rightarrow> int) \<Rightarrow> int \<Rightarrow> int \<Rightarrow> plot \<Rightarrow> int" where
  "plotIndexOf cv startT step p =
     wrap64 (f2i cv (fadd (fdiv (i2f (wrap64 (UnixNano (Time p) - UnixNano startT))) (i2f step))
                          (Fin 1)) - 1)"

text \<open>
  Propagating the plots of a series across its buckets. A negative index is an index
  out of range: the program panics.
\<close>

fun propagate :: "(val \<Rightarrow> int) \<Rightarrow> int \<Rightarrow> int \<Rightarrow> int \<Rightarrow> int \<Rightarrow> plot list \<Rightarrow> plotBucket list
    \<Rightarrow> failure + plotBucket list" where
  "propagate cv startT endT step sample [] buckets = Inr buckets"
| "propagate cv startT endT step sample (p # ps) buckets =
    (if Before (Time p) startT \<or> After (Time p) endT
     then propagate cv startT endT step sample ps buckets
     else (let plotIndex = plotIndexOf cv startT step p in
       if sample \<le> plotIndex then propagate cv startT endT step sample ps buckets
       else if plotIndex < 0 then Inl (Panic IndexOutOfRange)
       else propagate cv startT endT step sample ps
              (buckets[nat plotIndex :=
                 (buckets ! nat plotIndex)\<lparr>plots := plots (buckets ! nat plotIndex) @ [p]\<rparr>])))"

definition initBuckets :: "int \<Rightarrow> int \<Rightarrow> int \<Rightarrow> plotBucket list" where
  "initBuckets startT step sample =
     map (\<lambda>stepIndex. \<lparr>startTime = Add startT (wrap64 (int stepIndex * step)), plots = []\<rparr>)
       [0..<nat sample]"

text \<open>
  The body of the loop over the series list, for one series. \<^verbatim>\<open>make\<close> panics on a
  negative length.
\<close>

definition consolidateOne :: "(val \<Rightarrow> int) \<Rightarrow> int \<Rightarrow> int \<Rightarrow> int \<Rightarrow> int \<Rightarrow> int \<Rightarrow> series
    \<Rightarrow> failure + series" where
  "consolidateOne cv startT endT step sample consolidationType s =
    (if sample < 0 then Inl (Panic MakesliceLenOutOfRange)
     else case propagate cv startT endT step sample (Plots s) (initBuckets startT step sample) of
         Inl e \<Rightarrow> Inl e
       | Inr buckets \<Rightarrow>
           Inr \<lparr>Name = [], Plots = map (\<lambda>b. Consolidate b consolidationType) buckets,
                Step = 0, Summary = Some Map.empty\<rparr>)"

fun consolidateAll :: "(val \<Rightarrow> int) \<Rightarrow> int \<Rightarrow> int \<Rightarrow> int \<Rightarrow> int \<Rightarrow> int \<Rightarrow> series list
    \<Rightarrow> failure + series list" where
  "consolidateAll cv startT endT step sample consolidationType [] = Inr []"
| "consolidateAll cv startT endT step sample consolidationType (s # ss) =
    (case consolidateOne cv startT endT step sample consolidationType s of
       Inl e \<Rightarrow> Inl e
     | Inr c \<Rightarrow> (case consolidateAll cv startT endT step sample consolidationType ss of
         Inl e \<Rightarrow> Inl e
       | Inr cs \<Rightarrow> Inr (c # cs)))"

definition maxLengthOf :: "series list \<Rightarrow> int" where
  "maxLengthOf seriesList =
     foldl (\<lambda>maxLength s. if maxLength < int (length (Plots s)) then int (length (Plots s))
                           else maxLength) 0 seriesList"

definition ConsolidateSeries :: "(val \<Rightarrow> int) \<Rightarrow> series list \<Rightarrow> int \<Rightarrow> int \<Rightarrow> int \<Rightarrow> int
    \<Rightarrow> failure + series list" where
  "ConsolidateSeries cv seriesList startT endT sample consolidationType =
    (if sample = 0 then Inl (Error ''sample must be greater than zero'')
     else if length seriesList = 0 then Inl (Error ''no series provided'')
     else (let maxLength = maxLengthOf seriesList;
               sample' = (if 0 < maxLength \<and> maxLength < sample then maxLength else sample);
               step = tdiv (Sub endT startT) sample'
           in consolidateAll cv startT endT step sample' consolidationType seriesList))"

text \<open>
  \<^verbatim>\<open>Downsample\<close> (plot.go) drops the error of \<^verbatim>\<open>ConsolidateSeries\<close> and reads element 0 of
  the list it returned, which is nil when there was an error.
\<close>

definition Downsample :: "(val \<Rightarrow> int) \<Rightarrow> series \<Rightarrow> int \<Rightarrow> int \<Rightarrow> int \<Rightarrow> int \<Rightarrow> failure + series" where
  "Downsample cv s startT endT sample consolidationType =
    (case ConsolidateSeries cv [s] startT endT sample consolidationType of
       Inl (Panic p) \<Rightarrow> Inl (Panic p)
     | Inl (Error e) \<Rightarrow> Inl (Panic IndexOutOfRange)
     | Inr consolidatedSeries \<Rightarrow>
         (case consolidatedSeries of [] \<Rightarrow> Inl (Panic IndexOutOfRange) | c # _ \<Rightarrow> Inr c))"

section \<open>Series operators (pkg/plot/func.go)\<close>

abbreviation (input) OperTypeNone :: int where "OperTypeNone \<equiv> 1"
abbreviation (input) OperTypeAverage :: int where "OperTypeAverage \<equiv> 2"
abbreviation (input) OperTypeSum :: int where "OperTypeSum \<equiv> 3"

text \<open>
  The inner loop of \<^verbatim>\<open>operSeries\<close> at one plot index: the value of the output plot,
  which starts as the zero value, and the count of the series that contributed. Reading
  a plot that a series does not have is an index out of range.
\<close>

fun operLoop :: "nat \<Rightarrow> series list \<Rightarrow> val \<times> int \<Rightarrow> failure + val \<times> int" where
  "operLoop plotIndex [] acc = Inr acc"
| "operLoop plotIndex (s # ss) (v, sumCount) =
    (if length (Plots s) \<le> plotIndex then Inl (Panic IndexOutOfRange)
     else if isNaN (Value (Plots s ! plotIndex)) then operLoop plotIndex ss (v, sumCount)
     else operLoop plotIndex ss (fadd v (Value (Plots s ! plotIndex)), sumCount + 1))"

definition operPlot :: "series list \<Rightarrow> int \<Rightarrow> nat \<Rightarrow> failure + plot" where
  "operPlot seriesList operType plotIndex =
    (case operLoop plotIndex seriesList (Fin 0, 0) of
       Inl e \<Rightarrow> Inl e
     | Inr (v, sumCount) \<Rightarrow>
         Inr \<lparr>Time = Time (Plots (seriesList ! 0) ! plotIndex),
              Value = (if sumCount = 0 then NaN
                       else if operType = OperTypeAverage then fdiv v (i2f sumCount)
                       else v)\<rparr>)"

fun operPlots :: "series list \<Rightarrow> int \<Rightarrow> nat list \<Rightarrow> failure + plot list" where
  "operPlots seriesList operType [] = Inr []"
| "operPlots seriesList operType (plotIndex # rest) =
    (case operPlot seriesList operType plotIndex of
       Inl e \<Rightarrow> Inl e
     | Inr p \<Rightarrow> (case operPlots seriesList operType rest of
         Inl e \<Rightarrow> Inl e
       | Inr ps \<Rightarrow> Inr (p # ps)))"

definition operSeries :: "series list \<Rightarrow> int \<Rightarrow> failure + series" where
  "operSeries seriesList operType =
    (if length seriesList = 0 then Inl (Error ''no series provided'')
     else case operPlots seriesList operType [0..<length (Plots (seriesList ! 0))] of
         Inl e \<Rightarrow> Inl e
       | Inr ps \<Rightarrow> Inr \<lparr>Name = [], Plots = ps, Step = 0, Summary = Some Map.empty\<rparr>)"

definition AverageSeries :: "series list \<Rightarrow> failure + series" where
  "AverageSeries seriesList = operSeries seriesList OperTypeAverage"

definition SumSeries :: "series list \<Rightarrow> failure + series" where
  "SumSeries seriesList = operSeries seriesList OperTypeSum"

text \<open>
  The combined value at a point index in the words of the specification: the sum of
  the values at that index over all series, NaN contributors skipped and the others
  counted; NaN when none contributed, the sum divided by the count for an average.
\<close>

definition specCombined :: "bool \<Rightarrow> series list \<Rightarrow> nat \<Rightarrow> val" where
  "specCombined average seriesList i =
    (let contributors = filter (\<lambda>v. \<not> isNaN v) (map (\<lambda>s. Value (Plots s ! i)) seriesList);
         n = int (length contributors);
         total = foldl fadd (Fin 0) contributors
     in if n = 0 then NaN else if average then fdiv total (i2f n) else total)"

section \<open>Formatting a float64 with the verb %g\<close>

text \<open>
  The standard library of Go is not part of the repository. \<^verbatim>\<open>fmt.Sprintf("%g", f)\<close> is
  modelled from its documentation and from \<^verbatim>\<open>strconv.FormatFloat(f, 'g', -1, 64)\<close>, which
  it calls: the shortest decimal digits that read back as \<open>f\<close>, in the format %e when the
  decimal exponent is below \<open>-4\<close> or at least 6, and in the format %f otherwise.
\<close>

definition digit :: "int \<Rightarrow> char" where
  "digit d = ''0123456789'' ! nat d"

text \<open>The decimal digits of a natural number.\<close>

function digits :: "int \<Rightarrow> string" where
  "digits n = (if n < 10 then [digit n] else digits (n div 10) @ [digit (n mod 10)])"
  by pat_completeness auto
termination
  by (relation "measure nat") auto

declare digits.simps [simp del]

text \<open>\<^verbatim>\<open>strconv.Itoa\<close>, which is also the verb %d.\<close>

definition itoa :: "int \<Rightarrow> string" where
  "itoa n = (if n < 0 then ''-'' @ digits (- n) else digits n)"

text \<open>The number of decimal digits of a positive integer.\<close>

function declen :: "int \<Rightarrow> int" where
  "declen n = (if n \<le> 0 then 0 else declen (n div 10) + 1)"
  by pat_completeness auto
termination
  by (relation "measure nat") auto

declare declen.simps [simp del]

text \<open>The floor of the decimal logarithm of a positive rational.\<close>

definition flog10 :: "rat \<Rightarrow> int" where
  "flog10 x = (if 1 \<le> x then declen \<lfloor>x\<rfloor> - 1 else - declen (\<lceil>1 / x\<rceil> - 1))"

definition pow10 :: "int \<Rightarrow> rat" where
  "pow10 e = (if 0 \<le> e then 10 ^ nat e else 1 / 10 ^ nat (- e))"

text \<open>
  The decimals of \<open>nd\<close> digits next to the positive rational \<open>x\<close>, as \<open>(near, far, e)\<close>
  for \<open>near * 10 ^ e\<close> and \<open>far * 10 ^ e\<close>: the nearer one first (the lower one when both
  are as near).
\<close>

definition candidates :: "nat \<Rightarrow> rat \<Rightarrow> int \<times> int \<times> int" where
  "candidates nd x =
    (let e = flog10 x - int nd + 1;
         q = x / pow10 e;
         lo = \<lfloor>q\<rfloor>;
         hi = lo + 1
     in if q - of_int lo \<le> of_int hi - q then (lo, hi, e) else (hi, lo, e))"

definition roundTrips :: "rat \<Rightarrow> int \<Rightarrow> int \<Rightarrow> bool" where
  "roundTrips x c e = (rnd (of_int c * pow10 e) = Fin x)"

text \<open>
  The shortest decimal \<open>c * 10 ^ e\<close> that rounds to the positive float \<open>x\<close>, trying
  \<open>nd\<close>, \<open>nd + 1\<close>, ... digits. Seventeen digits always suffice.
\<close>

fun shortestFrom :: "nat \<Rightarrow> nat \<Rightarrow> rat \<Rightarrow> int \<times> int" where
  "shortestFrom 0 nd x =
    (case candidates nd x of (near, far, e) \<Rightarrow>
       if roundTrips x near e then (near, e)
       else if roundTrips x far e then (far, e)
       else (near, e))"
| "shortestFrom (Suc fuel) nd x =
    (case candidates nd x of (near, far, e) \<Rightarrow>
       if roundTrips x near e then (near, e)
       else if roundTrips x far e then (far, e)
       else shortestFrom fuel (Suc nd) x)"

definition stripZeros :: "string \<Rightarrow> string" where
  "stripZeros ds = rev (dropWhile (\<lambda>c. c = CHR ''0'') (rev ds))"

text \<open>The format %e: \<^verbatim>\<open>d.ddde+xx\<close>, the exponent with two digits at least.\<close>

definition fmtE :: "string \<Rightarrow> int \<Rightarrow> string" where
  "fmtE ds dp =
    (let ex = dp - 1;
         mant = (if 1 < length ds then [hd ds] @ ''.'' @ tl ds else [hd ds]);
         xs = digits \<bar>ex\<bar>
     in mant @ ''e'' @ (if ex < 0 then ''-'' else ''+'') @ (if length xs < 2 then ''0'' @ xs else xs))"

text \<open>The format %f with as many decimals as the digits need.\<close>

definition fmtF :: "string \<Rightarrow> int \<Rightarrow> string" where
  "fmtF ds dp =
    (let nd = int (length ds);
         prec = max (nd - dp) 0;
         ipart = (if 0 < dp
                  then map (\<lambda>j. if j < length ds then ds ! j else CHR ''0'') [0..<nat dp]
                  else ''0'');
         fpart = map (\<lambda>i. let j = dp + int i in
                           if 0 \<le> j \<and> j < nd then ds ! nat j else CHR ''0'') [0..<nat prec]
     in if 0 < prec then ipart @ ''.'' @ fpart else ipart)"

text \<open>
  A \<^verbatim>\<open>float64\<close> that is printed. The verb %g writes the sign of a zero, which \<open>val\<close>
  does not keep: a printed \<^verbatim>\<open>float64\<close> is the negative zero or a \<open>val\<close>, whose zero is the
  positive one. Nothing else in this program tells the two zeros apart: the comparisons,
  the conversion to an integer and \<^verbatim>\<open>math.Exp\<close> take them for equal, and the divisors are
  converted integers and the constant 100.
\<close>

datatype float64 = NegZero | Float64 val

fun valOf :: "float64 \<Rightarrow> val" where
  "valOf NegZero = Fin 0"
| "valOf (Float64 v) = v"

definition fmt_g :: "float64 \<Rightarrow> string" where
  "fmt_g f = (case f of
      NegZero \<Rightarrow> ''-0''
    | Float64 NaN \<Rightarrow> ''NaN''
    | Float64 PInf \<Rightarrow> ''+Inf''
    | Float64 NInf \<Rightarrow> ''-Inf''
    | Float64 (Fin x) \<Rightarrow>
        if x = 0 then ''0''
        else (let (c, e) = shortestFrom 16 1 \<bar>x\<bar>;
                  all = digits c;
                  ds = stripZeros all;
                  dp = e + int (length all);
                  body = (if dp - 1 < - 4 \<or> 6 \<le> dp - 1 then fmtE ds dp else fmtF ds dp)
              in if x < 0 then ''-'' @ body else body))"

section \<open>Summaries and percentiles (pkg/plot/plot.go)\<close>

text \<open>\<^verbatim>\<open>sort.Float64s\<close> on a slice without NaN: ascending order.\<close>

fun insertVal :: "val \<Rightarrow> val list \<Rightarrow> val list" where
  "insertVal x [] = [x]"
| "insertVal x (y # ys) = (if flt y x then y # insertVal x ys else x # y # ys)"

definition sortFloat64s :: "val list \<Rightarrow> val list" where
  "sortFloat64s xs = foldr insertVal xs []"

text \<open>
  One percentile of \<^verbatim>\<open>Percentiles\<close>: the key and the value to store, or the panic of an
  index that the sorted set does not have. The percentile is printed into the key, so it
  is a \<open>float64\<close>; the rank is computed from its value.
\<close>

definition percentileOf :: "(val \<Rightarrow> int) \<Rightarrow> val list \<Rightarrow> float64 \<Rightarrow> failure + string \<times> val" where
  "percentileOf cv sset percentile =
    (let setSize = int (length sset);
         percentileString = fmt_g percentile @ ''th'';
         rank = fmul (fdiv (valOf percentile) (Fin 100)) (i2f (setSize + 1));
         rankInt = f2i cv rank;
         rankFrac = fsub rank (i2f rankInt)
     in if fle rank (Fin 0) then Inr (percentileString, sset ! 0)
        else if fge (fsub rank (Fin 1)) (i2f setSize)
          then Inr (percentileString, sset ! nat (setSize - 1))
        else if rankInt - 1 < 0 \<or> setSize \<le> rankInt - 1 \<or> rankInt < 0 \<or> setSize \<le> rankInt
          then Inl (Panic IndexOutOfRange)
        else Inr (percentileString,
               fadd (sset ! nat (rankInt - 1))
                 (fmul rankFrac (fsub (sset ! nat rankInt) (sset ! nat (rankInt - 1))))))"

text \<open>The loop over the requested percentiles, writing into the summary map.\<close>

fun percentilesLoop :: "(val \<Rightarrow> int) \<Rightarrow> val list \<Rightarrow> float64 list \<Rightarrow> (string \<Rightarrow> val option) option
    \<Rightarrow> failure + (string \<Rightarrow> val option) option" where
  "percentilesLoop cv sset [] summary = Inr summary"
| "percentilesLoop cv sset (percentile # rest) summary =
    (case percentileOf cv sset percentile of
       Inl e \<Rightarrow> Inl e
     | Inr (k, v) \<Rightarrow>
         (case summary of
            None \<Rightarrow> Inl (Panic NilMapAssignment)
          | Some m \<Rightarrow> percentilesLoop cv sset rest (Some (m(k \<mapsto> v)))))"

text \<open>
  \<^verbatim>\<open>Percentiles\<close> and \<^verbatim>\<open>Summarize\<close> have a value receiver and write into the map of the
  series: they are modelled as returning the series with the map they leave.
\<close>

definition Percentiles :: "(val \<Rightarrow> int) \<Rightarrow> series \<Rightarrow> float64 list \<Rightarrow> failure + series" where
  "Percentiles cv s percentiles =
    (let vals = filter (\<lambda>v. \<not> isNaN v) (map Value (Plots s)) in
     if length percentiles = 0 then Inr s
     else if length vals = 0 then Inr s
     else (case percentilesLoop cv (sortFloat64s vals) percentiles (Summary s) of
        Inl e \<Rightarrow> Inl e
      | Inr summary \<Rightarrow> Inr (s\<lparr>Summary := summary\<rparr>)))"

text \<open>The loop of \<^verbatim>\<open>Summarize\<close> over the plots: minimum, maximum, total, count.\<close>

definition summarizeLoop :: "plot list \<Rightarrow> val \<times> val \<times> val \<times> int \<Rightarrow> val \<times> val \<times> val \<times> int" where
  "summarizeLoop ps init =
     foldl (\<lambda>(mn, mx, total, nValidPlots) p.
        (if (\<not> isNaN (Value p) \<and> flt (Value p) mn) \<or> isNaN mn then Value p else mn,
         if fgt (Value p) mx then Value p else mx,
         if \<not> isNaN (Value p) then fadd total (Value p) else total,
         if \<not> isNaN (Value p) then nValidPlots + 1 else nValidPlots)) init ps"

definition Summarize :: "(val \<Rightarrow> int) \<Rightarrow> series \<Rightarrow> float64 list \<Rightarrow> failure + series" where
  "Summarize cv s percentiles =
    (let nPlots = length (Plots s) in
     case Summary s of
       None \<Rightarrow> Inl (Panic NilMapAssignment)
     | Some m \<Rightarrow>
        (let m1 = (if 0 < nPlots then m(''last'' \<mapsto> Value (Plots s ! (nPlots - 1))) else m);
             (mn, mx, total, nValidPlots) =
                summarizeLoop (Plots s)
                  (if 0 < nPlots then Value (Plots s ! 0) else Fin 0, Fin 0, Fin 0, 0);
             m2 = m1(''min'' \<mapsto> mn, ''max'' \<mapsto> mx, ''avg'' \<mapsto> fdiv total (i2f nValidPlots))
         in if 0 < length percentiles then Percentiles cv (s\<lparr>Summary := Some m2\<rparr>) percentiles
            else Inr (s\<lparr>Summary := Some m2\<rparr>)))"

section \<open>JSON marshalling of a value (pkg/plot/plot.go)\<close>

text \<open>
  \<^verbatim>\<open>math.Exp\<close> belongs to the standard library of Go, not to the repository. It is
  modelled from the portable implementation (\<^verbatim>\<open>src/math/exp.go\<close>): the special cases,
  the overflow and underflow bounds, and the shortcut \<^verbatim>\<open>1 + x\<close> for \<open>\<bar>x\<bar> < 2 ^ -28\<close>.
  What the argument reduction computes for the other arguments is the parameter
  \<open>expReduced\<close>. The three constants are the float64 values of the source's decimals.
\<close>

definition Overflow :: rat where
  "Overflow = 6243314768165359 / 8796093022208"

definition Underflow :: rat where
  "Underflow = - 6554261109157969 / 8796093022208"

definition NearZero :: rat where
  "NearZero = 1 / 268435456"

definition mathExp :: "(rat \<Rightarrow> val) \<Rightarrow> val \<Rightarrow> val" where
  "mathExp expReduced v = (case v of
      NaN \<Rightarrow> NaN
    | PInf \<Rightarrow> PInf
    | NInf \<Rightarrow> Fin 0
    | Fin x \<Rightarrow>
        if Overflow < x then PInf
        else if x < Underflow then Fin 0
        else if - NearZero < x \<and> x < NearZero then fadd (Fin 1) (Fin x)
        else expReduced x)"

text \<open>
  The outputs of \<^verbatim>\<open>json.Marshal\<close> that occur: \<^verbatim>\<open>null\<close>, an integer literal, and the
  number that encodes a finite float. \<^verbatim>\<open>json.Marshal\<close> refuses the infinities with an
  error.
\<close>

datatype json = JNull | JInt int | JNumber rat

definition marshalFloat64 :: "val \<Rightarrow> failure + json" where
  "marshalFloat64 v = (case v of
      Fin x \<Rightarrow> Inr (JNumber x)
    | _ \<Rightarrow> Inl (Error ''json: unsupported value''))"

definition MarshalJSON :: "(rat \<Rightarrow> val) \<Rightarrow> val \<Rightarrow> failure + json" where
  "MarshalJSON expReduced v =
    (if isNaN v then Inr JNull
     else if mathExp expReduced v = Fin 1 then Inr (JInt 0)
     else marshalFloat64 v)"

section \<open>Preparing the backend query of a group (pkg/server/library_plot.go)\<close>

text \<open>
  The catalog and the library are external to the function: the map of origins, the
  lookup of a metric and the expansion of a group are fields of the server. A backend
  handler is an interface value, \<open>None\<close> when nil, compared by identity; \<open>'b\<close> is the type
  of the identities and \<open>'m\<close> the type of the catalog's metrics.
\<close>

datatype libraryItem = LibraryItemSourceGroup | LibraryItemMetricGroup

record 'b origin =
  Backend :: "'b option"

record ('b, 'm) server =
  Origins :: "string \<Rightarrow> 'b origin option"
  GetMetric :: "string \<Rightarrow> string \<Rightarrow> string \<Rightarrow> 'm option"
  ExpandGroup :: "string \<Rightarrow> libraryItem \<Rightarrow> string list"

record plotRequest =
  ReqTemplate :: string
  ReqSource :: string

record serie =
  SerieName :: string
  SerieOrigin :: string
  SerieSource :: string
  SerieMetric :: string
  SerieScale :: val

record operGroup =
  GroupName :: string
  GroupType :: int
  GroupScale :: val
  GroupSeries :: "serie list"

record 'm serieQuery =
  QueryName :: string
  QueryMetric :: "'m option"
  QueryScale :: val

record 'm groupQuery =
  GQName :: string
  GQType :: int
  GQScale :: val
  GQSeries :: "'m serieQuery list"

datatype prepareError = UnknownSerieOrigin string | BackendsDiffer | NoSerieDefined

definition HasPrefix :: "string \<Rightarrow> string \<Rightarrow> bool" where
  "HasPrefix s prefix = (take (length prefix) s = prefix)"

definition serieSources :: "('b, 'm) server \<Rightarrow> plotRequest \<Rightarrow> serie \<Rightarrow> string list" where
  "serieSources srv plotReq serieItem =
    (if ReqTemplate plotReq \<noteq> [] then [ReqSource plotReq]
     else if HasPrefix (SerieSource serieItem) ''group:''
       then ExpandGroup srv (drop 6 (SerieSource serieItem)) LibraryItemSourceGroup
     else [SerieSource serieItem])"

text \<open>The queries that one source of a serie appends: one per metric of a metric group.\<close>

definition sourceQueries :: "('b, 'm) server \<Rightarrow> serie \<Rightarrow> string \<Rightarrow> 'm serieQuery list" where
  "sourceQueries srv serieItem serieSource =
    (if HasPrefix (SerieMetric serieItem) ''group:''
     then map (\<lambda>(index, serieChunk).
            \<lparr>QueryName = SerieName serieItem @ ''-'' @ itoa (int index),
             QueryMetric = GetMetric srv (SerieOrigin serieItem) serieSource serieChunk,
             QueryScale = SerieScale serieItem\<rparr>)
          (enumerate 0 (ExpandGroup srv (drop 6 (SerieMetric serieItem)) LibraryItemMetricGroup))
     else [\<lparr>QueryName = SerieName serieItem,
            QueryMetric = GetMetric srv (SerieOrigin serieItem) serieSource (SerieMetric serieItem),
            QueryScale = SerieScale serieItem\<rparr>])"

definition serieQueries :: "('b, 'm) server \<Rightarrow> plotRequest \<Rightarrow> serie \<Rightarrow> 'm serieQuery list" where
  "serieQueries srv plotReq serieItem =
     concat (map (sourceQueries srv serieItem) (serieSources srv plotReq serieItem))"

text \<open>The loop over the series of the group: the backend seen so far and the queries.\<close>

fun prepareLoop :: "('b, 'm) server \<Rightarrow> plotRequest \<Rightarrow> serie list \<Rightarrow> 'b option
    \<Rightarrow> 'm serieQuery list \<Rightarrow> prepareError + 'b option \<times> 'm serieQuery list" where
  "prepareLoop srv plotReq [] originBackend queries = Inr (originBackend, queries)"
| "prepareLoop srv plotReq (serieItem # rest) originBackend queries =
    (case Origins srv (SerieOrigin serieItem) of
       None \<Rightarrow> Inl (UnknownSerieOrigin (SerieOrigin serieItem))
     | Some orig \<Rightarrow>
         if originBackend = None
         then prepareLoop srv plotReq rest (Backend orig)
                (queries @ serieQueries srv plotReq serieItem)
         else if originBackend \<noteq> Backend orig then Inl BackendsDiffer
         else prepareLoop srv plotReq rest originBackend
                (queries @ serieQueries srv plotReq serieItem))"

definition plotPrepareQuery :: "('b, 'm) server \<Rightarrow> plotRequest \<Rightarrow> operGroup
    \<Rightarrow> prepareError + 'm groupQuery \<times> 'b option" where
  "plotPrepareQuery srv plotReq groupItem =
    (case prepareLoop srv plotReq (GroupSeries groupItem) None [] of
       Inl e \<Rightarrow> Inl e
     | Inr (originBackend, queries) \<Rightarrow>
         if length queries = 0 then Inl NoSerieDefined
         else Inr (\<lparr>GQName = GroupName groupItem, GQType = GroupType groupItem,
                    GQScale = GroupScale groupItem, GQSeries = queries\<rparr>, originBackend))"

section \<open>Properties of the consolidation\<close>

lemma propagate_length:
  "propagate cv st en step sample ps bs = Inr bs' \<Longrightarrow> length bs' = length bs"
proof (induction ps arbitrary: bs)
  case Nil
  then show ?case by simp
next
  case (Cons p ps)
  show ?case
  proof (cases "Before (Time p) st \<or> After (Time p) en")
    case True
    with Cons.prems have "propagate cv st en step sample ps bs = Inr bs'" by simp
    then show ?thesis by (rule Cons.IH)
  next
    case out: False
    show ?thesis
    proof (cases "sample \<le> plotIndexOf cv st step p")
      case True
      with out Cons.prems have "propagate cv st en step sample ps bs = Inr bs'" by simp
      then show ?thesis by (rule Cons.IH)
    next
      case False
      with out Cons.prems have neg: "\<not> plotIndexOf cv st step p < 0"
        by (auto simp: Let_def)
      with out False Cons.prems have "propagate cv st en step sample ps
          (bs[nat (plotIndexOf cv st step p) :=
             (bs ! nat (plotIndexOf cv st step p))\<lparr>plots := plots (bs ! nat (plotIndexOf cv st step p)) @ [p]\<rparr>]) = Inr bs'"
        by (simp add: Let_def)
      from Cons.IH[OF this] show ?thesis by simp
    qed
  qed
qed

lemma consolidateOne_shape:
  assumes "consolidateOne cv st en step sample ct s = Inr c"
  shows "0 \<le> sample \<and> length (Plots c) = nat sample \<and> Summary c = Some Map.empty"
proof -
  from assms have nn: "0 \<le> sample"
    by (simp add: consolidateOne_def split: if_splits)
  with assms obtain bs where
    p: "propagate cv st en step sample (Plots s) (initBuckets st step sample) = Inr bs"
    and c: "c = \<lparr>Name = [], Plots = map (\<lambda>b. Consolidate b ct) bs, Step = 0, Summary = Some Map.empty\<rparr>"
    by (simp add: consolidateOne_def split: sum.splits)
  from propagate_length[OF p] have "length bs = nat sample"
    by (simp add: initBuckets_def)
  with nn c show ?thesis by simp
qed

lemma consolidateAll_shape:
  "consolidateAll cv st en step sample ct ss = Inr out \<Longrightarrow>
     list_all2 (\<lambda>s c. consolidateOne cv st en step sample ct s = Inr c) ss out"
  by (induction ss arbitrary: out) (auto split: sum.splits)

lemma foldl_max_eq:
  "foldl (\<lambda>m s. if m < f s then f s else m) (a::int) xs = Max (insert a (f ` set xs))"
proof (induction xs arbitrary: a)
  case Nil
  then show ?case by simp
next
  case (Cons x xs)
  have "Max (insert (if a < f x then f x else a) (f ` set xs)) = Max (insert a (insert (f x) (f ` set xs)))"
    by (cases "f ` set xs = {}") (auto simp: max_def)
  then show ?case using Cons.IH[of "if a < f x then f x else a"] by simp
qed

lemma maxLengthOf_Max:
  assumes "seriesList \<noteq> []"
  shows "maxLengthOf seriesList = Max ((\<lambda>s. int (length (Plots s))) ` set seriesList)"
proof -
  define S where "S = (\<lambda>s. int (length (Plots s))) ` set seriesList"
  have fin: "finite S" unfolding S_def by (rule finite_imageI) (rule finite_set)
  have ne: "S \<noteq> {}" unfolding S_def using assms by simp
  obtain y where y: "y \<in> S" using ne by blast
  then have "0 \<le> y" unfolding S_def by (rule imageE) simp
  also have "y \<le> Max S" using fin y by (rule Max_ge)
  finally have nn: "0 \<le> Max S" .
  have "maxLengthOf seriesList = Max (insert 0 S)"
    unfolding maxLengthOf_def S_def by (rule foldl_max_eq)
  also have "\<dots> = max 0 (Max S)" using fin ne by (rule Max_insert)
  also have "\<dots> = Max S" using nn by (rule max_absorb2)
  finally show ?thesis unfolding S_def .
qed

lemma ConsolidateSeries_Inr_args:
  assumes "ConsolidateSeries cv seriesList startT endT sample ct = Inr out"
  shows "sample \<noteq> 0 \<and> seriesList \<noteq> []"
proof (cases "sample = 0")
  case True
  with assms show ?thesis by (simp add: ConsolidateSeries_def)
next
  case False
  with assms show ?thesis by (cases seriesList) (simp_all add: ConsolidateSeries_def)
qed

lemma ConsolidateSeries_unfold:
  assumes "sample \<noteq> 0" and "seriesList \<noteq> []"
    and "n = (if 0 < maxLengthOf seriesList \<and> maxLengthOf seriesList < sample
              then maxLengthOf seriesList else sample)"
  shows "ConsolidateSeries cv seriesList startT endT sample ct =
     consolidateAll cv startT endT (tdiv (Sub endT startT) n) n ct seriesList"
  using assms by (simp add: ConsolidateSeries_def Let_def)

lemma maxLengthOf_nonneg: "0 \<le> maxLengthOf seriesList"
proof (cases "seriesList = []")
  case True
  then show ?thesis by (simp add: maxLengthOf_def)
next
  case False
  define S where "S = (\<lambda>s. int (length (Plots s))) ` set seriesList"
  have fin: "finite S" unfolding S_def by (rule finite_imageI) (rule finite_set)
  have ne: "S \<noteq> {}" unfolding S_def using False by simp
  obtain y where y: "y \<in> S" using ne by blast
  then have "0 \<le> y" unfolding S_def by (rule imageE) simp
  also have "y \<le> Max S" using fin y by (rule Max_ge)
  finally show ?thesis unfolding maxLengthOf_Max[OF False] S_def .
qed

text \<open>
  Claim C1, as the code has it. A call of \<^verbatim>\<open>ConsolidateSeries\<close> that returns a list was
  given a non-empty list and a positive sample count; it returns one series per input
  series, in the order of the input (output \<open>i\<close> is the consolidation of input \<open>i\<close>), each
  with an empty summary and the same number of plots: the longest input's plot count
  \<open>m\<close> when \<open>0 < m < sample\<close>, and \<open>sample\<close> otherwise, also when every input series is
  empty (\<open>m = 0\<close>).
\<close>

theorem ConsolidateSeries_shape:
  assumes "ConsolidateSeries cv seriesList startT endT sample ct = Inr out"
  shows "seriesList \<noteq> [] \<and> 0 < sample \<and> length out = length seriesList \<and>
    (\<forall>i<length out.
       length (Plots (out ! i)) =
         nat (let m = Max ((\<lambda>s. int (length (Plots s))) ` set seriesList)
              in if 0 < m \<and> m < sample then m else sample) \<and>
       Summary (out ! i) = Some Map.empty \<and>
       (let m = Max ((\<lambda>s. int (length (Plots s))) ` set seriesList);
            n = (if 0 < m \<and> m < sample then m else sample)
        in consolidateOne cv startT endT (tdiv (Sub endT startT) n) n ct (seriesList ! i)
             = Inr (out ! i)))"
proof -
  from ConsolidateSeries_Inr_args[OF assms] have nz: "sample \<noteq> 0" and ne: "seriesList \<noteq> []"
    by blast+
  define m where "m = Max ((\<lambda>s. int (length (Plots s))) ` set seriesList)"
  define n where "n = (if 0 < m \<and> m < sample then m else sample)"
  have ml: "maxLengthOf seriesList = m" unfolding m_def using ne by (rule maxLengthOf_Max)
  have n': "n = (if 0 < maxLengthOf seriesList \<and> maxLengthOf seriesList < sample
              then maxLengthOf seriesList else sample)"
    unfolding ml n_def ..
  have all: "consolidateAll cv startT endT (tdiv (Sub endT startT) n) n ct seriesList = Inr out"
    using ConsolidateSeries_unfold[OF nz ne n', of cv startT endT ct] assms by simp
  then have l2: "list_all2 (\<lambda>s c. consolidateOne cv startT endT (tdiv (Sub endT startT) n) n ct s = Inr c)
      seriesList out"
    by (rule consolidateAll_shape)
  then have len: "length out = length seriesList" by (simp add: list_all2_lengthD)
  have each: "consolidateOne cv startT endT (tdiv (Sub endT startT) n) n ct (seriesList ! i) = Inr (out ! i)"
    if "i < length out" for i using list_all2_nthD2[OF l2 that] .
  have shape: "0 \<le> n \<and> length (Plots (out ! i)) = nat n \<and> Summary (out ! i) = Some Map.empty"
    if "i < length out" for i using each[OF that] by (rule consolidateOne_shape)
  have pos: "0 < sample"
  proof -
    from ne len have "0 < length out" by simp
    from shape[OF this] have "0 \<le> n" by blast
    then show ?thesis using nz unfolding n_def by (cases "0 < m \<and> m < sample") simp_all
  qed
  have "\<forall>i<length out. length (Plots (out ! i)) = nat n \<and> Summary (out ! i) = Some Map.empty \<and>
      consolidateOne cv startT endT (tdiv (Sub endT startT) n) n ct (seriesList ! i) = Inr (out ! i)"
    using each shape by blast
  with ne pos len show ?thesis
    unfolding Let_def m_def[symmetric] n_def[symmetric] by blast
qed

text \<open>
  The scenario of the specification: four plots consolidated into two buckets.
\<close>

theorem ConsolidateSeries_shape_witness:
  "\<exists>out. ConsolidateSeries cvt_amd64
      [\<lparr>Name = ''a'', Plots = [\<lparr>Time = 0, Value = Fin 1\<rparr>, \<lparr>Time = 1, Value = Fin 2\<rparr>,
          \<lparr>Time = 2, Value = Fin 3\<rparr>, \<lparr>Time = 3, Value = Fin 4\<rparr>], Step = 0, Summary = None\<rparr>]
      0 4 2 ConsolidateAverage = Inr out \<and>
    length out = 1 \<and> length (Plots (out ! 0)) = 2 \<and> Summary (out ! 0) = Some Map.empty"
proof -
  let ?s = "\<lparr>Name = ''a'', Plots = [\<lparr>Time = 0, Value = Fin 1\<rparr>, \<lparr>Time = 1, Value = Fin 2\<rparr>,
          \<lparr>Time = 2, Value = Fin 3\<rparr>, \<lparr>Time = 3, Value = Fin 4\<rparr>], Step = 0, Summary = None\<rparr>"
  have "isl (ConsolidateSeries cvt_amd64 [?s] 0 4 2 ConsolidateAverage) = False"
    by code_simp
  then obtain out where out: "ConsolidateSeries cvt_amd64 [?s] 0 4 2 ConsolidateAverage = Inr out"
    by (cases "ConsolidateSeries cvt_amd64 [?s] 0 4 2 ConsolidateAverage") simp_all
  from ConsolidateSeries_shape[OF out]
  have "length out = 1 \<and> length (Plots (out ! 0)) = 2 \<and> Summary (out ! 0) = Some Map.empty"
    by simp
  with out show ?thesis by blast
qed

text \<open>
  Claim C1 as stated fails where every input series is empty: the longest input has 0
  plots, the requested sample count 5 is larger, and the returned series has 5 plots,
  not 0.
\<close>

theorem ConsolidateSeries_empty_input_counterexample:
  "map_sum id (map (\<lambda>s. int (length (Plots s))))
     (ConsolidateSeries cvt_amd64 [\<lparr>Name = ''a'', Plots = [], Step = 0, Summary = None\<rparr>]
        0 10 5 ConsolidateAverage) = Inr [5] \<and>
   Max ((\<lambda>s. int (length (Plots s))) ` set [\<lparr>Name = ''a'', Plots = [], Step = 0, Summary = None\<rparr>]) = 0"
proof
  show "map_sum id (map (\<lambda>s. int (length (Plots s))))
     (ConsolidateSeries cvt_amd64 [\<lparr>Name = ''a'', Plots = [], Step = 0, Summary = None\<rparr>]
        0 10 5 ConsolidateAverage) = Inr [5]"
    by code_simp
  show "Max ((\<lambda>s. int (length (Plots s))) ` set [\<lparr>Name = ''a'', Plots = [], Step = 0, Summary = None\<rparr>]) = 0"
    by simp
qed

text \<open>
  Claim C2 at a negative sample count: the guard of \<^verbatim>\<open>ConsolidateSeries\<close> tests
  \<open>sample = 0\<close> only, so a negative count passes it and \<^verbatim>\<open>make\<close> panics on the negative
  length; no error is returned.
\<close>

theorem ConsolidateSeries_negative_sample_panics:
  assumes "sample < 0" and "seriesList \<noteq> []"
  shows "ConsolidateSeries cv seriesList startT endT sample ct = Inl (Panic MakesliceLenOutOfRange)"
proof -
  obtain s ss where l: "seriesList = s # ss" using assms(2) by (cases seriesList) simp_all
  have nz: "sample \<noteq> 0" using assms(1) by simp
  have n: "sample = (if 0 < maxLengthOf seriesList \<and> maxLengthOf seriesList < sample
              then maxLengthOf seriesList else sample)"
    using assms(1) maxLengthOf_nonneg[of seriesList] by simp
  have "consolidateOne cv startT endT (tdiv (Sub endT startT) sample) sample ct s =
      Inl (Panic MakesliceLenOutOfRange)"
    using assms(1) by (simp add: consolidateOne_def)
  then have "consolidateAll cv startT endT (tdiv (Sub endT startT) sample) sample ct (s # ss) =
      Inl (Panic MakesliceLenOutOfRange)"
    by simp
  then show ?thesis
    using ConsolidateSeries_unfold[OF nz assms(2) n, of cv startT endT ct] l by simp
qed

text \<open>A sample count of \<open>-1\<close> and one series without plots.\<close>

theorem ConsolidateSeries_negative_sample_panics_witness:
  "ConsolidateSeries cvt_amd64 [\<lparr>Name = ''a'', Plots = [], Step = 0, Summary = None\<rparr>]
     0 10 (- 1) ConsolidateAverage = Inl (Panic MakesliceLenOutOfRange)"
  by (rule ConsolidateSeries_negative_sample_panics) simp_all

text \<open>
  Claim C6 at a bucket that holds a NaN plot beside a real one: the average case adds
  every member, NaN included, so the consolidated value is NaN and lies in no interval.
  The time is the midpoint of the first and the last member's times.
\<close>

theorem ConsolidateSeries_average_with_NaN_member:
  "map_sum id (map Plots)
     (ConsolidateSeries cvt_amd64
        [\<lparr>Name = ''a'', Plots = [\<lparr>Time = 0, Value = Fin 1\<rparr>, \<lparr>Time = 2, Value = NaN\<rparr>],
          Step = 0, Summary = None\<rparr>] 0 10 1 ConsolidateAverage)
   = Inr [[\<lparr>Time = 1, Value = NaN\<rparr>]]"
  by code_simp

text \<open>
  Claim C10. With a sample count of 0, \<^verbatim>\<open>ConsolidateSeries\<close> returns its error and no
  list; \<^verbatim>\<open>Downsample\<close> drops the error and reads element 0 of the nil list: it panics
  with an index out of range, for every series, window and consolidation type.
\<close>

theorem Downsample_sample_zero_panics:
  "ConsolidateSeries cv [s] startT endT 0 ct = Inl (Error ''sample must be greater than zero'') \<and>
   Downsample cv s startT endT 0 ct = Inl (Panic IndexOutOfRange)"
  by (simp add: ConsolidateSeries_def Downsample_def)

section \<open>Properties of the series operators\<close>

lemma operLoop_eq:
  assumes "\<forall>s\<in>set ss. i < length (Plots s)"
  shows "operLoop i ss (v, c) =
     Inr (foldl fadd v (filter (\<lambda>v. \<not> isNaN v) (map (\<lambda>s. Value (Plots s ! i)) ss)),
          c + int (length (filter (\<lambda>v. \<not> isNaN v) (map (\<lambda>s. Value (Plots s ! i)) ss))))"
  using assms
proof (induction ss arbitrary: v c)
  case Nil
  then show ?case by simp
next
  case (Cons s ss)
  then have i: "i < length (Plots s)" and rest: "\<forall>s\<in>set ss. i < length (Plots s)" by simp_all
  show ?case
  proof (cases "isNaN (Value (Plots s ! i))")
    case True
    with i Cons.IH[OF rest, of v c] show ?thesis by simp
  next
    case False
    with i Cons.IH[OF rest, of "fadd v (Value (Plots s ! i))" "c + 1"] show ?thesis by simp
  qed
qed

lemma operPlot_eq:
  assumes "\<forall>s\<in>set seriesList. i < length (Plots s)"
  shows "operPlot seriesList operType i =
     Inr \<lparr>Time = Time (Plots (seriesList ! 0) ! i),
          Value = specCombined (operType = OperTypeAverage) seriesList i\<rparr>"
  unfolding operPlot_def operLoop_eq[OF assms] specCombined_def Let_def by simp

lemma operPlots_eq:
  assumes "\<forall>i\<in>set idx. \<forall>s\<in>set seriesList. i < length (Plots s)"
  shows "operPlots seriesList operType idx =
     Inr (map (\<lambda>i. \<lparr>Time = Time (Plots (seriesList ! 0) ! i),
          Value = specCombined (operType = OperTypeAverage) seriesList i\<rparr>) idx)"
  using assms
proof (induction idx)
  case Nil
  then show ?case by simp
next
  case (Cons i idx)
  then have h: "\<forall>s\<in>set seriesList. i < length (Plots s)"
    and t: "\<forall>i\<in>set idx. \<forall>s\<in>set seriesList. i < length (Plots s)" by simp_all
  show ?case using operPlot_eq[OF h, of operType] Cons.IH[OF t] by simp
qed

lemma operSeries_eq:
  assumes ne: "seriesList \<noteq> []"
    and eq: "\<forall>s\<in>set seriesList. length (Plots s) = length (Plots (hd seriesList))"
  shows "operSeries seriesList operType =
     Inr \<lparr>Name = [],
          Plots = map (\<lambda>i. \<lparr>Time = Time (Plots (hd seriesList) ! i),
                   Value = specCombined (operType = OperTypeAverage) seriesList i\<rparr>)
                  [0..<length (Plots (hd seriesList))],
          Step = 0, Summary = Some Map.empty\<rparr>"
proof -
  have hd: "seriesList ! 0 = hd seriesList" using ne by (simp add: hd_conv_nth)
  have "\<forall>i\<in>set [0..<length (Plots (hd seriesList))]. \<forall>s\<in>set seriesList. i < length (Plots s)"
    using eq by simp
  from operPlots_eq[OF this, of operType] ne show ?thesis
    unfolding operSeries_def hd by simp
qed

text \<open>
  Claim C3. For a non-empty list of series of equal length, \<^verbatim>\<open>SumSeries\<close> and
  \<^verbatim>\<open>AverageSeries\<close> return a series with one plot per point index of the first series:
  its time is the time of the first series at that index, and its value is the sum over
  all series of the values at that index, NaN contributors skipped and the others
  counted; NaN when none contributed, the sum for \<^verbatim>\<open>SumSeries\<close>, the sum divided by the
  count for \<^verbatim>\<open>AverageSeries\<close> (\<open>specCombined\<close>).
\<close>

theorem SumSeries_AverageSeries_pointwise:
  assumes "seriesList \<noteq> []"
    and "\<forall>s\<in>set seriesList. length (Plots s) = length (Plots (hd seriesList))"
  shows "SumSeries seriesList =
       Inr \<lparr>Name = [],
            Plots = map (\<lambda>i. \<lparr>Time = Time (Plots (hd seriesList) ! i),
                               Value = specCombined False seriesList i\<rparr>)
                      [0..<length (Plots (hd seriesList))],
            Step = 0, Summary = Some Map.empty\<rparr> \<and>
     AverageSeries seriesList =
       Inr \<lparr>Name = [],
            Plots = map (\<lambda>i. \<lparr>Time = Time (Plots (hd seriesList) ! i),
                               Value = specCombined True seriesList i\<rparr>)
                      [0..<length (Plots (hd seriesList))],
            Step = 0, Summary = Some Map.empty\<rparr>"
  unfolding SumSeries_def AverageSeries_def
  using operSeries_eq[OF assms, of OperTypeSum] operSeries_eq[OF assms, of OperTypeAverage]
  by simp

lemma specCombined_example:
  "map (specCombined False
     [\<lparr>Name = ''a'', Plots = [\<lparr>Time = 0, Value = Fin 1\<rparr>, \<lparr>Time = 60, Value = NaN\<rparr>,
         \<lparr>Time = 120, Value = Fin 3\<rparr>], Step = 0, Summary = None\<rparr>,
      \<lparr>Name = ''b'', Plots = [\<lparr>Time = 0, Value = NaN\<rparr>, \<lparr>Time = 60, Value = Fin 2\<rparr>,
         \<lparr>Time = 120, Value = Fin 3\<rparr>], Step = 0, Summary = None\<rparr>]) [0, 1, 2]
   = [Fin 1, Fin 2, Fin 6]"
  by code_simp

text \<open>
  The scenario of the specification: the series \<open>[1, NaN, 3]\<close> and \<open>[NaN, 2, 3]\<close> summed
  give \<open>[1, 2, 6]\<close>, at the times of the first series.
\<close>

theorem SumSeries_AverageSeries_pointwise_witness:
  "map_sum id (\<lambda>r. map (\<lambda>p. (Time p, Value p)) (Plots r))
     (SumSeries
       [\<lparr>Name = ''a'', Plots = [\<lparr>Time = 0, Value = Fin 1\<rparr>, \<lparr>Time = 60, Value = NaN\<rparr>,
           \<lparr>Time = 120, Value = Fin 3\<rparr>], Step = 0, Summary = None\<rparr>,
        \<lparr>Name = ''b'', Plots = [\<lparr>Time = 0, Value = NaN\<rparr>, \<lparr>Time = 60, Value = Fin 2\<rparr>,
           \<lparr>Time = 120, Value = Fin 3\<rparr>], Step = 0, Summary = None\<rparr>])
   = Inr [(0, Fin 1), (60, Fin 2), (120, Fin 6)]"
proof -
  let ?a = "\<lparr>Name = ''a'', Plots = [\<lparr>Time = 0, Value = Fin 1\<rparr>, \<lparr>Time = 60, Value = NaN\<rparr>,
           \<lparr>Time = 120, Value = Fin 3\<rparr>], Step = 0, Summary = None\<rparr>"
  let ?b = "\<lparr>Name = ''b'', Plots = [\<lparr>Time = 0, Value = NaN\<rparr>, \<lparr>Time = 60, Value = Fin 2\<rparr>,
           \<lparr>Time = 120, Value = Fin 3\<rparr>], Step = 0, Summary = None\<rparr>"
  have ne: "[?a, ?b] \<noteq> []" by simp
  have eq: "\<forall>s\<in>set [?a, ?b]. length (Plots s) = length (Plots (hd [?a, ?b]))" by simp
  have idx: "[0..<length (Plots (hd [?a, ?b]))] = [0, 1, 2]" by (simp add: upt_rec)
  from specCombined_example
  have v: "specCombined False [?a, ?b] 0 = Fin 1" "specCombined False [?a, ?b] (Suc 0) = Fin 2"
    "specCombined False [?a, ?b] 2 = Fin 6" by simp_all
  from SumSeries_AverageSeries_pointwise[OF ne eq]
  have "SumSeries [?a, ?b] = Inr \<lparr>Name = [],
            Plots = map (\<lambda>i. \<lparr>Time = Time (Plots (hd [?a, ?b]) ! i),
                               Value = specCombined False [?a, ?b] i\<rparr>)
                      [0..<length (Plots (hd [?a, ?b]))],
            Step = 0, Summary = Some Map.empty\<rparr>" by blast
  then show ?thesis unfolding idx by (simp add: v)
qed

section \<open>Properties of the verb %g\<close>































section \<open>Properties of the summaries\<close>

lemma percentileOf_single_median:
  "percentileOf cv [Fin 10] (Float64 (Fin 50)) = Inl (Panic IndexOutOfRange)"
  by code_simp

lemma percentileOf_four_90:
  "percentileOf cv [Fin 10, Fin 20, Fin 30, Fin 40] (Float64 (Fin 90)) = Inl (Panic IndexOutOfRange)"
  by code_simp

lemma percentileOf_four_examples:
  "percentileOf cv [Fin 10, Fin 20, Fin 30, Fin 40] (Float64 (Fin 0)) = Inr (''0th'', Fin 10)"
  "percentileOf cv [Fin 10, Fin 20, Fin 30, Fin 40] (Float64 (Fin 100)) = Inr (''100th'', Fin 40)"
  "percentileOf cv [Fin 10, Fin 20, Fin 30, Fin 40] (Float64 (Fin 50)) = Inr (''50th'', Fin 25)"
  by code_simp+

text \<open>
  Claim C4 where the rank lies in the last interval: the median of a series with the
  single value 10 has rank 1, and the percentile 90 of four values has rank 4.5. Neither
  of the two guards holds, the interpolation reads the element after the last one of
  the sorted set, and \<^verbatim>\<open>Percentiles\<close> panics. The percentiles 0, 100 and 50 of the values
  10, 20, 30, 40 are 10, 40 and 25, as the claim says.
\<close>

theorem Percentiles_panics_in_last_interval:
  "Percentiles cv \<lparr>Name = ''a'', Plots = [\<lparr>Time = 0, Value = Fin 10\<rparr>], Step = 0,
      Summary = Some Map.empty\<rparr> [Float64 (Fin 50)] = Inl (Panic IndexOutOfRange) \<and>
   Percentiles cv \<lparr>Name = ''a'', Plots = [\<lparr>Time = 0, Value = Fin 10\<rparr>, \<lparr>Time = 1, Value = Fin 20\<rparr>,
      \<lparr>Time = 2, Value = Fin 30\<rparr>, \<lparr>Time = 3, Value = Fin 40\<rparr>], Step = 0,
      Summary = Some Map.empty\<rparr> [Float64 (Fin 90)] = Inl (Panic IndexOutOfRange) \<and>
   percentileOf cv [Fin 10, Fin 20, Fin 30, Fin 40] (Float64 (Fin 0)) = Inr (''0th'', Fin 10) \<and>
   percentileOf cv [Fin 10, Fin 20, Fin 30, Fin 40] (Float64 (Fin 100)) = Inr (''100th'', Fin 40) \<and>
   percentileOf cv [Fin 10, Fin 20, Fin 30, Fin 40] (Float64 (Fin 50)) = Inr (''50th'', Fin 25)"
  by (simp add: Percentiles_def sortFloat64s_def isNaN_def
      percentileOf_single_median percentileOf_four_90 percentileOf_four_examples)

text \<open>
  Claim C5 at a series whose only value is \<open>-1\<close>: the running maximum of \<^verbatim>\<open>Summarize\<close>
  starts at the zero value and not at the first plot, so the summary holds 0 under
  \<^verbatim>\<open>max\<close>, while the minimum, which starts at the first plot, is \<open>-1\<close>.
\<close>

theorem Summarize_max_of_negative_values:
  "map_sum id (\<lambda>s. map (the (Summary s)) [''min'', ''max''])
     (Summarize cv \<lparr>Name = ''a'', Plots = [\<lparr>Time = 0, Value = Fin (- 1)\<rparr>], Step = 0,
        Summary = Some Map.empty\<rparr> [])
   = Inr [Some (Fin (- 1)), Some (Fin 0)]"
  by code_simp













section \<open>Properties of the JSON marshalling\<close>

text \<open>
  Claim C8, as the code has it. \<^verbatim>\<open>MarshalJSON\<close> yields \<^verbatim>\<open>null\<close> for NaN; the literal 0
  exactly when \<^verbatim>\<open>math.Exp\<close> of the value is 1, which is so for 0 and also for values near
  zero such as \<open>2 ^ -60\<close>; an error for the infinities, which \<^verbatim>\<open>json.Marshal\<close> refuses; and
  the number encoding the value in every other case.
\<close>

theorem MarshalJSON_cases:
  "(isNaN v \<longrightarrow> MarshalJSON expReduced v = Inr JNull) \<and>
   (\<not> isNaN v \<and> mathExp expReduced v = Fin 1 \<longrightarrow> MarshalJSON expReduced v = Inr (JInt 0)) \<and>
   (mathExp expReduced (Fin x) \<noteq> Fin 1 \<longrightarrow> MarshalJSON expReduced (Fin x) = Inr (JNumber x)) \<and>
   MarshalJSON expReduced (Fin 0) = Inr (JInt 0) \<and>
   MarshalJSON expReduced (Fin (1 / 2 ^ 60)) = Inr (JInt 0) \<and>
   MarshalJSON expReduced PInf = Inl (Error ''json: unsupported value'') \<and>
   MarshalJSON expReduced NInf = Inl (Error ''json: unsupported value'')"
proof (intro conjI impI)
  show "MarshalJSON expReduced (Fin 0) = Inr (JInt 0)" by code_simp
  show "MarshalJSON expReduced (Fin (1 / 2 ^ 60)) = Inr (JInt 0)" by code_simp
qed (simp_all add: MarshalJSON_def marshalFloat64_def mathExp_def isNaN_def)

text \<open>
  NaN, zero and 3, with 20 standing for what the argument reduction returns at 3.
\<close>

theorem MarshalJSON_cases_witness:
  "MarshalJSON (\<lambda>x. Fin 20) NaN = Inr JNull \<and>
   MarshalJSON (\<lambda>x. Fin 20) (Fin 0) = Inr (JInt 0) \<and>
   MarshalJSON (\<lambda>x. Fin 20) (Fin 3) = Inr (JNumber 3)"
proof -
  have "mathExp (\<lambda>x. Fin 20) (Fin 3) \<noteq> Fin 1" by code_simp
  then show ?thesis
    using MarshalJSON_cases[of NaN "\<lambda>x. Fin 20" 3] MarshalJSON_cases[of "Fin 0" "\<lambda>x. Fin 20" 3]
    by (simp add: isNaN_def)
qed

text \<open>
  Claim C8 as stated fails at \<open>2 ^ -60\<close>: the value is neither NaN nor zero, and it is
  marshalled as the literal 0, since \<open>1 + 2 ^ -60\<close> rounds to 1. The argument reduction of
  \<^verbatim>\<open>math.Exp\<close> is not reached at this input, whatever stands for it.
\<close>

theorem MarshalJSON_near_zero_counterexample:
  "MarshalJSON (\<lambda>x. NaN) (Fin (1 / 2 ^ 60)) = Inr (JInt 0) \<and> Fin (1 / 2 ^ 60) \<noteq> Fin 0"
proof
  show "MarshalJSON (\<lambda>x. NaN) (Fin (1 / 2 ^ 60)) = Inr (JInt 0)" by code_simp
  show "Fin (1 / 2 ^ 60) \<noteq> Fin 0" by simp
qed

section \<open>Properties of the query preparation\<close>

lemma prepareLoop_Some:
  assumes "\<forall>item\<in>set items. Origins srv (SerieOrigin item) \<noteq> None"
  shows "prepareLoop srv plotReq items (Some b) qs =
    (if \<forall>item\<in>set items. Backend (the (Origins srv (SerieOrigin item))) = Some b
     then Inr (Some b, qs @ concat (map (serieQueries srv plotReq) items))
     else Inl BackendsDiffer)"
  using assms
proof (induction items arbitrary: qs)
  case Nil
  then show ?case by simp
next
  case (Cons item items)
  from Cons.prems obtain orig where o: "Origins srv (SerieOrigin item) = Some orig" by auto
  from Cons.prems have rest: "\<forall>item\<in>set items. Origins srv (SerieOrigin item) \<noteq> None" by simp
  show ?case
  proof (cases "Backend orig = Some b")
    case True
    with o Cons.IH[OF rest, of "qs @ serieQueries srv plotReq item"] show ?thesis by simp
  next
    case False
    with o show ?thesis by auto
  qed
qed

text \<open>
  Claim C9, as the code has it. For a group whose series all reference known origins,
  each with a backend: preparing the query fails with the conflict error exactly when
  the series resolve to more than one backend; it fails with the error \<^verbatim>\<open>no serie
  defined\<close> when they do not but the expansions of the series give no query (a group
  without series, a source group or a metric group that expands to nothing); otherwise
  it returns the query, which holds the queries of all series in order, and the one
  backend that all series share.
\<close>

theorem plotPrepareQuery_result:
  assumes known: "\<forall>item\<in>set (GroupSeries groupItem). Origins srv (SerieOrigin item) \<noteq> None"
    and backed: "\<forall>item\<in>set (GroupSeries groupItem).
                   Backend (the (Origins srv (SerieOrigin item))) \<noteq> None"
  shows "plotPrepareQuery srv plotReq groupItem =
    (let backends = (\<lambda>item. Backend (the (Origins srv (SerieOrigin item)))) ` set (GroupSeries groupItem);
         queries = concat (map (serieQueries srv plotReq) (GroupSeries groupItem))
     in if 1 < card backends then Inl BackendsDiffer
        else if queries = [] then Inl NoSerieDefined
        else Inr (\<lparr>GQName = GroupName groupItem, GQType = GroupType groupItem,
                   GQScale = GroupScale groupItem, GQSeries = queries\<rparr>, the_elem backends))"
proof (cases "GroupSeries groupItem")
  case Nil
  then show ?thesis by (simp add: plotPrepareQuery_def)
next
  case (Cons item items)
  define B where "B = (\<lambda>item::serie. Backend (the (Origins srv (SerieOrigin item))))"
  from known Cons obtain orig where o: "Origins srv (SerieOrigin item) = Some orig" by auto
  from backed Cons o obtain b where b: "Backend orig = Some b" by auto
  from known Cons have rest: "\<forall>item\<in>set items. Origins srv (SerieOrigin item) \<noteq> None" by simp
  have Bi: "B item = Some b" using o b by (simp add: B_def)
  have loop: "prepareLoop srv plotReq (GroupSeries groupItem) None [] =
      (if \<forall>item\<in>set items. B item = Some b
       then Inr (Some b, concat (map (serieQueries srv plotReq) (GroupSeries groupItem)))
       else Inl BackendsDiffer)"
    unfolding B_def using o b prepareLoop_Some[OF rest, of plotReq b "serieQueries srv plotReq item"]
    by (simp add: Cons)
  have img: "B ` set (GroupSeries groupItem) = insert (Some b) (B ` set items)"
    using Bi by (simp add: Cons)
  show ?thesis
  proof (cases "\<forall>item\<in>set items. B item = Some b")
    case True
    then have "B ` set items \<subseteq> {Some b}" by auto
    with img have one: "B ` set (GroupSeries groupItem) = {Some b}" by auto
    show ?thesis
      unfolding plotPrepareQuery_def Let_def B_def[symmetric] loop one using True by simp
  next
    case False
    then obtain j where j: "j \<in> set items" and ne: "B j \<noteq> Some b" by blast
    have sub: "{Some b, B j} \<subseteq> B ` set (GroupSeries groupItem)" using img j by auto
    have "card {Some b, B j} = 2" using ne by auto
    moreover have "card {Some b, B j} \<le> card (B ` set (GroupSeries groupItem))"
      using sub by (intro card_mono) auto
    ultimately have many: "1 < card (B ` set (GroupSeries groupItem))" by linarith
    show ?thesis
      unfolding plotPrepareQuery_def Let_def B_def[symmetric] loop using False many by simp
  qed
qed

text \<open>Two series of one origin: the query holds both, for the backend of the origin.\<close>

theorem plotPrepareQuery_result_witness:
  "plotPrepareQuery
     \<lparr>Origins = (\<lambda>name. if name = ''rrd1'' then Some \<lparr>Backend = Some (1::nat)\<rparr> else None),
      GetMetric = (\<lambda>orig source metric. Some (7::nat)),
      ExpandGroup = (\<lambda>name kind. [])\<rparr>
     \<lparr>ReqTemplate = [], ReqSource = []\<rparr>
     \<lparr>GroupName = ''load'', GroupType = 1, GroupScale = Fin 0,
      GroupSeries = [\<lparr>SerieName = ''a'', SerieOrigin = ''rrd1'', SerieSource = ''host1'',
                       SerieMetric = ''load.shortterm'', SerieScale = Fin 0\<rparr>,
                     \<lparr>SerieName = ''b'', SerieOrigin = ''rrd1'', SerieSource = ''host2'',
                       SerieMetric = ''load.shortterm'', SerieScale = Fin 0\<rparr>]\<rparr>
   = Inr (\<lparr>GQName = ''load'', GQType = 1, GQScale = Fin 0,
           GQSeries = [\<lparr>QueryName = ''a'', QueryMetric = Some 7, QueryScale = Fin 0\<rparr>,
                       \<lparr>QueryName = ''b'', QueryMetric = Some 7, QueryScale = Fin 0\<rparr>]\<rparr>,
          Some 1)"
proof -
  let ?srv = "\<lparr>Origins = (\<lambda>name. if name = ''rrd1'' then Some \<lparr>Backend = Some (1::nat)\<rparr> else None),
      GetMetric = (\<lambda>orig source metric. Some (7::nat)),
      ExpandGroup = (\<lambda>name kind. [])\<rparr>"
  let ?g = "\<lparr>GroupName = ''load'', GroupType = 1, GroupScale = Fin 0,
      GroupSeries = [\<lparr>SerieName = ''a'', SerieOrigin = ''rrd1'', SerieSource = ''host1'',
                       SerieMetric = ''load.shortterm'', SerieScale = Fin 0\<rparr>,
                     \<lparr>SerieName = ''b'', SerieOrigin = ''rrd1'', SerieSource = ''host2'',
                       SerieMetric = ''load.shortterm'', SerieScale = Fin 0\<rparr>]\<rparr>"
  have known: "\<forall>item\<in>set (GroupSeries ?g). Origins ?srv (SerieOrigin item) \<noteq> None" by simp
  have backed: "\<forall>item\<in>set (GroupSeries ?g). Backend (the (Origins ?srv (SerieOrigin item))) \<noteq> None"
    by simp
  show ?thesis
    unfolding plotPrepareQuery_result[OF known backed]
    by (simp add: serieQueries_def serieSources_def sourceQueries_def HasPrefix_def)
qed

text \<open>
  Claim C9 as stated fails at a group whose only serie names a source group that
  expands to nothing: its origin is known and there is one backend, and the
  preparation fails all the same.
\<close>

theorem plotPrepareQuery_no_serie_counterexample:
  "plotPrepareQuery
     \<lparr>Origins = (\<lambda>name. if name = ''rrd1'' then Some \<lparr>Backend = Some (1::nat)\<rparr> else None),
      GetMetric = (\<lambda>orig source metric. Some (7::nat)),
      ExpandGroup = (\<lambda>name kind. [])\<rparr>
     \<lparr>ReqTemplate = [], ReqSource = []\<rparr>
     \<lparr>GroupName = ''load'', GroupType = 1, GroupScale = Fin 0,
      GroupSeries = [\<lparr>SerieName = ''a'', SerieOrigin = ''rrd1'', SerieSource = ''group:none'',
                       SerieMetric = ''load.shortterm'', SerieScale = Fin 0\<rparr>]\<rparr>
   = Inl NoSerieDefined"
  by (simp add: plotPrepareQuery_def serieQueries_def serieSources_def HasPrefix_def)

end
